theory Spec2Isabelle
  imports Main
begin

section \<open>The nn operator module of nnvm: registrations and lowering policies\<close>

text \<open>
  The module \<^verbatim>\<open>nnvm/top/nn.py\<close> does two things when it is loaded and called:
  it registers, per operator name, a schedule function, a compute function and a fusion
  pattern in the operator registry, and it defines the compute and schedule functions
  of the convolution family. The functions build tensor expressions by calling
  primitives of the tensor-expression library; the model keeps each call as a node of a
  symbolic expression and logs it, so that which primitive was invoked, with which
  arguments and in which order, is a value one can state theorems about.
\<close>

subsection \<open>Errors\<close>

text \<open>
  The exceptions of the Python source, by their class and message. The specification
  names the same failures by role: its \<open>UnsupportedLayoutError\<close> is the failed
  \<^verbatim>\<open>assert\<close> on the layout, its \<open>InvalidAttributeError\<close> the
  \<^verbatim>\<open>ValueError("dilation should be positive value")\<close>, its
  \<open>UnsupportedGroupingError\<close> the \<^verbatim>\<open>ValueError\<close> on the group number.
\<close>

datatype error =
    AttributeError string
  | TypeConversionError string
  | AssertionError string
  | ValueError string
  | IndexError string

subsection \<open>Attributes\<close>

text \<open>
  Modelled from the spec: the attribute bag and its typed accessors (the class behind
  \<^verbatim>\<open>attrs\<close> is not part of this module). The bag maps an attribute name to a
  typed value; an accessor fails with \<open>AttributeError\<close> when the key is absent and
  with \<open>TypeConversionError\<close> when the value has another type. Only the kinds of
  value that the functions below read are modelled.
\<close>

datatype attr_value =
    BoolAttr bool
  | IntAttr int
  | IntTupleAttr "int list"
  | StrAttr string

type_synonym attrs = "string \<rightharpoonup> attr_value"

definition get_bool :: "attrs \<Rightarrow> string \<Rightarrow> error + bool" where
  "get_bool a key =
     (case a key of
        None \<Rightarrow> Inl (AttributeError key)
      | Some (BoolAttr b) \<Rightarrow> Inr b
      | Some _ \<Rightarrow> Inl (TypeConversionError key))"

definition get_int :: "attrs \<Rightarrow> string \<Rightarrow> error + int" where
  "get_int a key =
     (case a key of
        None \<Rightarrow> Inl (AttributeError key)
      | Some (IntAttr i) \<Rightarrow> Inr i
      | Some _ \<Rightarrow> Inl (TypeConversionError key))"

definition get_int_tuple :: "attrs \<Rightarrow> string \<Rightarrow> error + int list" where
  "get_int_tuple a key =
     (case a key of
        None \<Rightarrow> Inl (AttributeError key)
      | Some (IntTupleAttr t) \<Rightarrow> Inr t
      | Some _ \<Rightarrow> Inl (TypeConversionError key))"

definition get_str :: "attrs \<Rightarrow> string \<Rightarrow> error + string" where
  "get_str a key =
     (case a key of
        None \<Rightarrow> Inl (AttributeError key)
      | Some (StrAttr s) \<Rightarrow> Inr s
      | Some _ \<Rightarrow> Inl (TypeConversionError key))"

subsection \<open>The operator registry\<close>

text \<open>
  Modelled from the spec: the fusion patterns (the enumeration \<^verbatim>\<open>OpPattern\<close> is
  declared in the registry module, which is not part of this module), with the five
  values the specification lists.
\<close>

datatype op_pattern = ELEMWISE | BROADCAST | INJECTIVE | OUT_ELEMWISE_FUSABLE | OPAQUE

text \<open>The functions this module registers, by their names in the source.\<close>

datatype schedule_fn =
    fschedule_broadcast
  | fschedule_injective
  | schedule_softmax
  | schedule_log_softmax
  | schedule_dense
  | schedule_conv2d_fn
  | schedule_contrib_conv2d_NCHWc
  | schedule_conv2d_transpose
  | schedule_max_pool2d
  | schedule_avg_pool2d
  | schedule_global_max_pool2d
  | schedule_global_avg_pool2d
  | schedule_upsampling
  | schedule_lrn
  | schedule_l2_normalize

datatype compute_fn =
    compute_dense_fn
  | compute_conv2d_fn
  | compute_contrib_conv2d_NCHWc_fn
  | compute_conv2d_transpose_fn
  | compute_lrn
  | compute_l2_normalize

datatype alter_fn = alter_conv2d_layout

record registry =
  computes :: "string \<rightharpoonup> compute_fn"
  schedules :: "string \<rightharpoonup> schedule_fn"
  alter_layouts :: "string \<rightharpoonup> alter_fn"
  patterns :: "string \<rightharpoonup> op_pattern"

definition empty_registry :: registry where
  "empty_registry =
     \<lparr>computes = Map.empty, schedules = Map.empty, alter_layouts = Map.empty,
      patterns = Map.empty\<rparr>"

text \<open>
  Modelled from the spec: the four registration functions of the registry module (not
  part of this module). Each creates or updates the entry of the name and sets only
  its own slot; a later registration of the same name and slot replaces the earlier.
\<close>

definition register_compute :: "string \<Rightarrow> compute_fn \<Rightarrow> registry \<Rightarrow> registry" where
  "register_compute n f r = r\<lparr>computes := (computes r)(n \<mapsto> f)\<rparr>"

definition register_schedule :: "string \<Rightarrow> schedule_fn \<Rightarrow> registry \<Rightarrow> registry" where
  "register_schedule n f r = r\<lparr>schedules := (schedules r)(n \<mapsto> f)\<rparr>"

definition register_alter_op_layout :: "string \<Rightarrow> alter_fn \<Rightarrow> registry \<Rightarrow> registry" where
  "register_alter_op_layout n f r = r\<lparr>alter_layouts := (alter_layouts r)(n \<mapsto> f)\<rparr>"

definition register_pattern :: "string \<Rightarrow> op_pattern \<Rightarrow> registry \<Rightarrow> registry" where
  "register_pattern n p r = r\<lparr>patterns := (patterns r)(n \<mapsto> p)\<rparr>"

text \<open>
  The registrations of the module, one entry per \<^verbatim>\<open>reg.register_...\<close> statement
  or decorator, in the order of the source (lines 13 to 278).
\<close>

definition nn_registrations :: "(registry \<Rightarrow> registry) list" where
  "nn_registrations =
     [register_schedule ''relu'' fschedule_broadcast,
      register_pattern ''relu'' ELEMWISE,
      register_schedule ''leaky_relu'' fschedule_broadcast,
      register_pattern ''leaky_relu'' ELEMWISE,
      register_schedule ''prelu'' fschedule_broadcast,
      register_pattern ''prelu'' BROADCAST,
      register_schedule ''flatten'' fschedule_broadcast,
      register_pattern ''flatten'' INJECTIVE,
      register_schedule ''pad'' fschedule_broadcast,
      register_pattern ''pad'' INJECTIVE,
      register_schedule ''__layout_transform__'' fschedule_injective,
      register_pattern ''__layout_transform__'' INJECTIVE,
      register_schedule ''softmax'' schedule_softmax,
      register_pattern ''softmax'' OPAQUE,
      register_schedule ''log_softmax'' schedule_log_softmax,
      register_pattern ''log_softmax'' OPAQUE,
      register_compute ''dense'' compute_dense_fn,
      register_schedule ''dense'' schedule_dense,
      register_pattern ''dense'' OUT_ELEMWISE_FUSABLE,
      register_compute ''conv2d'' compute_conv2d_fn,
      register_schedule ''conv2d'' schedule_conv2d_fn,
      register_alter_op_layout ''conv2d'' alter_conv2d_layout,
      register_pattern ''conv2d'' OUT_ELEMWISE_FUSABLE,
      register_compute ''_contrib_conv2d_NCHWc'' compute_contrib_conv2d_NCHWc_fn,
      register_schedule ''_contrib_conv2d_NCHWc'' schedule_contrib_conv2d_NCHWc,
      register_pattern ''_contrib_conv2d_NCHWc'' OUT_ELEMWISE_FUSABLE,
      register_compute ''conv2d_transpose'' compute_conv2d_transpose_fn,
      register_schedule ''conv2d_transpose'' schedule_conv2d_transpose,
      register_pattern ''conv2d_transpose'' OUT_ELEMWISE_FUSABLE,
      register_schedule ''max_pool2d'' schedule_max_pool2d,
      register_pattern ''max_pool2d'' OUT_ELEMWISE_FUSABLE,
      register_schedule ''avg_pool2d'' schedule_avg_pool2d,
      register_pattern ''avg_pool2d'' OUT_ELEMWISE_FUSABLE,
      register_schedule ''global_max_pool2d'' schedule_global_max_pool2d,
      register_pattern ''global_max_pool2d'' OUT_ELEMWISE_FUSABLE,
      register_schedule ''global_avg_pool2d'' schedule_global_avg_pool2d,
      register_pattern ''global_avg_pool2d'' OUT_ELEMWISE_FUSABLE,
      register_schedule ''upsampling'' schedule_upsampling,
      register_pattern ''upsampling'' INJECTIVE,
      register_compute ''lrn'' compute_lrn,
      register_schedule ''lrn'' schedule_lrn,
      register_pattern ''lrn'' OPAQUE,
      register_compute ''l2_normalize'' compute_l2_normalize,
      register_schedule ''l2_normalize'' schedule_l2_normalize,
      register_pattern ''l2_normalize'' OUT_ELEMWISE_FUSABLE]"

text \<open>Loading the module runs the registrations from first to last.\<close>

definition load_nn :: "registry \<Rightarrow> registry" where
  "load_nn r = fold (\<lambda>stmt. stmt) nn_registrations r"

subsection \<open>Tensor handles and tensor expressions\<close>

text \<open>
  An input of a compute function is an opaque handle of the tensor-expression
  library; the only thing the module reads from it is its shape
  (\<^verbatim>\<open>inputs[0].shape[1]\<close>). Shapes are static here: each extent is a constant
  integer, which is what \<^verbatim>\<open>get_const_int\<close> returns.
\<close>

datatype handle = Handle (hname: string) (hshape: "int list")

text \<open>
  One constructor per primitive of the tensor-expression library that the compute
  functions call, with the arguments of the call in the order of the source:
  \<^verbatim>\<open>topi.nn.dense(data, weight, bias)\<close>, \<^verbatim>\<open>topi.nn.dilate(data, strides)\<close>,
  \<^verbatim>\<open>topi.nn.conv2d(data, kernel, strides, padding, layout)\<close>,
  \<^verbatim>\<open>topi.nn.depthwise_conv2d_nchw(data, kernel, strides, padding)\<close>,
  \<^verbatim>\<open>topi.nn.conv2d_NCHWc(data, kernel, channels, (kh, kw), strides, padding)\<close>,
  \<^verbatim>\<open>topi.nn.conv2d_transpose_nchw(data, kernel, strides, padding)\<close>,
  \<^verbatim>\<open>topi.expand_dims(a, axis, num_newaxis)\<close>, \<^verbatim>\<open>topi.broadcast_add(a, b)\<close>,
  \<^verbatim>\<open>topi.nn.pad(data, pad_before, pad_after)\<close>.
\<close>

datatype texpr =
    Input handle
  | Dense texpr texpr "texpr option"
  | Dilate texpr "int list"
  | Conv2d texpr texpr "int list" "int list" string
  | DepthwiseConv2dNchw texpr texpr "int list" "int list"
  | Conv2dNCHWc texpr texpr int "int \<times> int" "int list" "int list"
  | Conv2dTransposeNchw texpr texpr "int list" "int list"
  | ExpandDims texpr int int
  | BroadcastAdd texpr texpr
  | Pad texpr "int list" "int list"

subsection \<open>Lowering with a log\<close>

text \<open>
  A compute function returns a tensor expression or raises; on the way it reads entries
  of its input sequence and invokes primitives. The model returns the outcome together
  with the log of these events, in order: \<open>InputAt i\<close> for an evaluation of
  \<^verbatim>\<open>inputs[i]\<close>, \<open>Prim e\<close> for an invocation of a primitive, \<open>e\<close> being the
  call with its arguments.
\<close>

datatype event = InputAt nat | Prim texpr

type_synonym 'a lowered = "(error + 'a) \<times> event list"

definition return_ok :: "'a \<Rightarrow> 'a lowered" where
  "return_ok x = (Inr x, [])"

definition raise_err :: "error \<Rightarrow> 'a lowered" where
  "raise_err e = (Inl e, [])"

definition from_result :: "error + 'a \<Rightarrow> 'a lowered" where
  "from_result r = (r, [])"

text \<open>Sequencing: an exception of the first part ends the call, with the log so far.\<close>

definition bnd :: "'a lowered \<Rightarrow> ('a \<Rightarrow> 'b lowered) \<Rightarrow> 'b lowered" where
  "bnd m f =
     (case m of
        (Inl e, tr) \<Rightarrow> (Inl e, tr)
      | (Inr x, tr) \<Rightarrow> (case f x of (r, tr') \<Rightarrow> (r, tr @ tr')))"

text \<open>\<^verbatim>\<open>inputs[i]\<close> on a Python list, for the constant indices 0, 1 and 2 of the source.\<close>

definition input_at :: "handle list \<Rightarrow> nat \<Rightarrow> handle lowered" where
  "input_at inputs i =
     (if i < length inputs then Inr (inputs ! i)
      else Inl (IndexError ''list index out of range''), [InputAt i])"

text \<open>
  Invoking a primitive logs the call and returns the expression it builds. The primitives
  belong to the tensor-expression library, not to this module: a call is taken to return
  for the arguments it is given, and what happens inside the library is not modelled.
\<close>

definition prim :: "texpr \<Rightarrow> texpr lowered" where
  "prim e = (Inr e, [Prim e])"

text \<open>\<^verbatim>\<open>(a, b) = t\<close>: unpacking a tuple that does not have two entries raises.\<close>

definition unpack2 :: "int list \<Rightarrow> error + int \<times> int" where
  "unpack2 t =
     (case t of
        [a, b] \<Rightarrow> Inr (a, b)
      | _ \<Rightarrow> Inl (ValueError ''wrong number of values to unpack''))"

text \<open>\<^verbatim>\<open>t[i]\<close> on a tuple of integers.\<close>

definition tuple_at :: "int list \<Rightarrow> nat \<Rightarrow> error + int" where
  "tuple_at t i =
     (if i < length t then Inr (t ! i) else Inl (IndexError ''tuple index out of range''))"

text \<open>\<^verbatim>\<open>get_const_int(h.shape[i])\<close>: the extent of axis \<open>i\<close> of a handle.\<close>

definition shape_at :: "handle \<Rightarrow> nat \<Rightarrow> error + int" where
  "shape_at h i =
     (if i < length (hshape h) then Inr (hshape h ! i)
      else Inl (IndexError ''array index out of range''))"

subsection \<open>Compute lowering\<close>

text \<open>\<^verbatim>\<open>compute_dense\<close>, lines 61 to 66.\<close>

definition compute_dense :: "attrs \<Rightarrow> handle list \<Rightarrow> texpr lowered" where
  "compute_dense a inputs =
     bnd (from_result (get_bool a ''use_bias'')) (\<lambda>use_bias.
       if use_bias then
         bnd (input_at inputs 0) (\<lambda>d.
         bnd (input_at inputs 1) (\<lambda>w.
         bnd (input_at inputs 2) (\<lambda>b.
           prim (Dense (Input d) (Input w) (Some (Input b))))))
       else
         bnd (input_at inputs 0) (\<lambda>d.
         bnd (input_at inputs 1) (\<lambda>w.
           prim (Dense (Input d) (Input w) None))))"

text \<open>
  \<^verbatim>\<open>compute_conv2d\<close>, lines 78 to 109: the six attribute reads, the assertion on
  the layout, the choice of the kernel by the dilation, the dispatch on the group
  number, and the bias.
\<close>

definition compute_conv2d :: "attrs \<Rightarrow> handle list \<Rightarrow> texpr lowered" where
  "compute_conv2d a inputs =
     bnd (from_result (get_int_tuple a ''padding'')) (\<lambda>padding.
     bnd (from_result (get_int_tuple a ''strides'')) (\<lambda>strides.
     bnd (from_result (get_int_tuple a ''dilation'')) (\<lambda>dilation.
     bnd (from_result (get_int a ''groups'')) (\<lambda>groups.
     bnd (from_result (get_int a ''channels'')) (\<lambda>channels.
     bnd (from_result (get_str a ''layout'')) (\<lambda>layout.
     if \<not> (layout = ''NCHW'' \<or> layout = ''NHWC'') then raise_err (AssertionError [])
     else
     bnd (from_result (unpack2 dilation)) (\<lambda>(dilation_h, dilation_w).
     bnd (if dilation_h < 1 \<or> dilation_w < 1 then
            raise_err (ValueError ''dilation should be positive value'')
          else if dilation = [1, 1] then
            bnd (input_at inputs 1) (\<lambda>k. return_ok (Input k))
          else if layout = ''NCHW'' then
            bnd (input_at inputs 1) (\<lambda>k.
              prim (Dilate (Input k) [1, 1, dilation_h, dilation_w]))
          else
            bnd (input_at inputs 1) (\<lambda>k.
              prim (Dilate (Input k) [1, dilation_h, dilation_w, 1]))) (\<lambda>kernel.
     bnd (if groups = 1 then
            bnd (input_at inputs 0) (\<lambda>d.
              prim (Conv2d (Input d) kernel strides padding layout))
          else
            bnd (input_at inputs 0) (\<lambda>d0.
            bnd (from_result (shape_at d0 1)) (\<lambda>in_channels.
              if groups = in_channels \<and> groups = channels then
                bnd (input_at inputs 0) (\<lambda>d.
                  prim (DepthwiseConv2dNchw (Input d) kernel strides padding))
              else
                raise_err (ValueError ''not support arbitrary group number for now'')))) (\<lambda>out.
     bnd (from_result (get_bool a ''use_bias'')) (\<lambda>use_bias.
       if use_bias then
         bnd (input_at inputs 2) (\<lambda>b.
         bnd (prim (ExpandDims (Input b) (if layout = ''NCHW'' then 1 else 0) 2)) (\<lambda>bias.
           prim (BroadcastAdd out bias)))
       else return_ok out))))))))))"

text \<open>\<^verbatim>\<open>compute_contrib_conv2d_NCHWc\<close>, lines 130 to 150.\<close>

definition compute_contrib_conv2d_NCHWc :: "attrs \<Rightarrow> handle list \<Rightarrow> texpr lowered" where
  "compute_contrib_conv2d_NCHWc a inputs =
     bnd (from_result (get_int_tuple a ''padding'')) (\<lambda>padding.
     bnd (from_result (get_int_tuple a ''strides'')) (\<lambda>strides.
     bnd (from_result (get_int_tuple a ''dilation'')) (\<lambda>dilation.
     bnd (from_result (get_int_tuple a ''kernel_size'')) (\<lambda>kernel_size.
     bnd (from_result (unpack2 kernel_size)) (\<lambda>(kh, kw).
     bnd (from_result (get_int a ''groups'')) (\<lambda>groups.
     bnd (from_result (get_int a ''channels'')) (\<lambda>channels.
     if dilation \<noteq> [1, 1] then raise_err (AssertionError ''not support dilate now'')
     else
     bnd (if groups = 1 then
            bnd (input_at inputs 0) (\<lambda>d.
            bnd (input_at inputs 1) (\<lambda>k.
              prim (Conv2dNCHWc (Input d) (Input k) channels (kh, kw) strides padding)))
          else
            raise_err (ValueError ''not support arbitrary group number > 1 for now'')) (\<lambda>out.
     bnd (from_result (get_bool a ''use_bias'')) (\<lambda>use_bias.
       if use_bias then
         bnd (input_at inputs 2) (\<lambda>b.
         bnd (prim (ExpandDims (Input b) 1 2)) (\<lambda>bias.
           prim (BroadcastAdd out bias)))
       else return_ok out)))))))))"

text \<open>\<^verbatim>\<open>compute_conv2d_transpose\<close>, lines 169 to 188.\<close>

definition compute_conv2d_transpose :: "attrs \<Rightarrow> handle list \<Rightarrow> texpr lowered" where
  "compute_conv2d_transpose a inputs =
     bnd (from_result (get_int_tuple a ''padding'')) (\<lambda>padding.
     bnd (from_result (get_int_tuple a ''strides'')) (\<lambda>strides.
     bnd (from_result (get_int_tuple a ''dilation'')) (\<lambda>dilation.
     bnd (from_result (get_int a ''groups'')) (\<lambda>groups.
     bnd (from_result (get_str a ''layout'')) (\<lambda>layout.
     if layout \<noteq> ''NCHW'' then raise_err (AssertionError ''only support nchw for now'')
     else if dilation \<noteq> [1, 1] then raise_err (AssertionError ''not support dilate now'')
     else if groups \<noteq> 1 then
       raise_err (AssertionError ''only support groups == 1 for now'')
     else
     bnd (bnd (input_at inputs 0) (\<lambda>d.
          bnd (input_at inputs 1) (\<lambda>k.
            prim (Conv2dTransposeNchw (Input d) (Input k) strides padding)))) (\<lambda>out.
     bnd (bnd (from_result (get_bool a ''use_bias'')) (\<lambda>use_bias.
            if use_bias then
              bnd (input_at inputs 2) (\<lambda>b.
              bnd (prim (ExpandDims (Input b) 1 2)) (\<lambda>bias.
                prim (BroadcastAdd out bias)))
            else return_ok out)) (\<lambda>out.
     bnd (from_result (get_int_tuple a ''output_padding'')) (\<lambda>output_padding.
     bnd (from_result (tuple_at output_padding 0)) (\<lambda>op0.
     bnd (from_result (tuple_at output_padding 1)) (\<lambda>op1.
       prim (Pad out [0, 0, 0, 0] [0, 0, op0, op1])))))))))))"

subsection \<open>Schedule lowering of conv2d\<close>

text \<open>
  Modelled from the spec: the target scope and the schedule templates of the scheduler
  library (not part of this module). A template is a generic function: what it builds
  depends on the target that is active when it is called. The active targets form a
  stack; \<^verbatim>\<open>with tvm.target.create(target):\<close> pushes the target on entry and pops it
  on every exit, also when the body fails. A target is taken by its name. A schedule
  records the template, the target that was active at the call (the top of the stack, if
  any) and the outputs.
\<close>

datatype template =
    generic_schedule_conv2d_nchw
  | generic_schedule_conv2d_nhwc
  | generic_schedule_depthwise_conv2d_nchw

datatype schedule = Schedule template "string option" "texpr list"

type_synonym target_stack = "string list"

definition current_target :: "target_stack \<Rightarrow> string option" where
  "current_target st = (case st of [] \<Rightarrow> None | t # _ \<Rightarrow> Some t)"

definition topi_generic :: "template \<Rightarrow> texpr list \<Rightarrow> target_stack \<Rightarrow> (error + schedule) \<times> target_stack" where
  "topi_generic tpl outs st = (Inr (Schedule tpl (current_target st) outs), st)"

definition with_target ::
  "string \<Rightarrow> (target_stack \<Rightarrow> (error + 'a) \<times> target_stack) \<Rightarrow> target_stack \<Rightarrow> (error + 'a) \<times> target_stack" where
  "with_target target body st = (case body (target # st) of (r, st') \<Rightarrow> (r, tl st'))"

text \<open>\<^verbatim>\<open>schedule_conv2d\<close>, lines 111 to 121.\<close>

definition schedule_conv2d ::
  "attrs \<Rightarrow> texpr list \<Rightarrow> string \<Rightarrow> target_stack \<Rightarrow> (error + schedule) \<times> target_stack" where
  "schedule_conv2d a outs target st =
     (case get_int a ''groups'' of
        Inl e \<Rightarrow> (Inl e, st)
      | Inr groups \<Rightarrow>
          (case get_str a ''layout'' of
             Inl e \<Rightarrow> (Inl e, st)
           | Inr layout \<Rightarrow>
               with_target target
                 (if groups = 1 \<and> layout = ''NCHW'' then
                    topi_generic generic_schedule_conv2d_nchw outs
                  else if groups = 1 \<and> layout = ''NHWC'' then
                    topi_generic generic_schedule_conv2d_nhwc outs
                  else topi_generic generic_schedule_depthwise_conv2d_nchw outs) st))"

subsection \<open>Reading the log\<close>

text \<open>The primitive calls of a log, in order, and the indices of the inputs it read.\<close>

fun prims :: "event list \<Rightarrow> texpr list" where
  "prims [] = []"
| "prims (Prim e # evs) = e # prims evs"
| "prims (InputAt i # evs) = prims evs"

fun input_reads :: "event list \<Rightarrow> nat list" where
  "input_reads [] = []"
| "input_reads (InputAt i # evs) = i # input_reads evs"
| "input_reads (Prim e # evs) = input_reads evs"

text \<open>
  The kernel argument of every call of one of the two convolution primitives of
  \<^verbatim>\<open>compute_conv2d\<close>, in order.
\<close>

fun conv_kernels :: "texpr list \<Rightarrow> texpr list" where
  "conv_kernels [] = []"
| "conv_kernels (Conv2d d k s p l # es) = k # conv_kernels es"
| "conv_kernels (DepthwiseConv2dNchw d k s p # es) = k # conv_kernels es"
| "conv_kernels (e # es) = conv_kernels es"

text \<open>The calls of the two convolution primitives themselves, in order.\<close>

fun is_conv :: "texpr \<Rightarrow> bool" where
  "is_conv (Conv2d d k s p l) = True"
| "is_conv (DepthwiseConv2dNchw d k s p) = True"
| "is_conv e = False"

definition conv_calls :: "texpr list \<Rightarrow> texpr list" where
  "conv_calls es = filter is_conv es"

text \<open>The calls of the dilation primitive in a list of calls.\<close>

fun dilations :: "texpr list \<Rightarrow> texpr list" where
  "dilations [] = []"
| "dilations (Dilate e s # es) = Dilate e s # dilations es"
| "dilations (e # es) = dilations es"

text \<open>
  The six attribute reads at the head of \<^verbatim>\<open>compute_conv2d\<close> succeed, with these
  values.
\<close>

definition conv2d_attrs ::
  "attrs \<Rightarrow> int list \<Rightarrow> int list \<Rightarrow> int list \<Rightarrow> int \<Rightarrow> int \<Rightarrow> string \<Rightarrow> bool" where
  "conv2d_attrs a padding strides dilation groups channels layout \<longleftrightarrow>
     get_int_tuple a ''padding'' = Inr padding \<and>
     get_int_tuple a ''strides'' = Inr strides \<and>
     get_int_tuple a ''dilation'' = Inr dilation \<and>
     get_int a ''groups'' = Inr groups \<and>
     get_int a ''channels'' = Inr channels \<and>
     get_str a ''layout'' = Inr layout"

text \<open>
  The attribute bag of a conv2d node that has all seven attributes of the operator, each
  with its type; the theorems are instantiated with such bags.
\<close>

definition conv2d_bag ::
  "int list \<Rightarrow> int list \<Rightarrow> int list \<Rightarrow> int \<Rightarrow> int \<Rightarrow> string \<Rightarrow> bool \<Rightarrow> attrs" where
  "conv2d_bag padding strides dilation groups channels layout use_bias =
     [''padding'' \<mapsto> IntTupleAttr padding, ''strides'' \<mapsto> IntTupleAttr strides,
      ''dilation'' \<mapsto> IntTupleAttr dilation, ''groups'' \<mapsto> IntAttr groups,
      ''channels'' \<mapsto> IntAttr channels, ''layout'' \<mapsto> StrAttr layout,
      ''use_bias'' \<mapsto> BoolAttr use_bias]"

subsection \<open>What dilation and padding do to a tensor\<close>

text \<open>
  A tensor value: its shape and its entry at each index. The two primitives whose effect
  on the entries the specification describes are given a meaning on such values; the
  convolutions and the other primitives stay uninterpreted.
\<close>

record 'a tensor =
  shape :: "int list"
  elem :: "int list \<Rightarrow> 'a"

text \<open>
  Modelled from the spec: the dilation primitive \<^verbatim>\<open>topi.nn.dilate\<close> (not part of
  this module), dilation by zero insertion: along an axis of stride \<open>s\<close> the entries of
  the tensor are placed \<open>s\<close> apart, entry \<open>i\<close> at position \<open>i * s\<close>, and every
  position in between holds zero, so that \<open>s - 1\<close> zeros separate two neighbours.
\<close>

definition dilate :: "'a::zero tensor \<Rightarrow> int list \<Rightarrow> 'a tensor" where
  "dilate t strides =
     \<lparr>shape = map2 (\<lambda>n s. (n - 1) * s + 1) (shape t) strides,
      elem = (\<lambda>idx.
        if list_all2 (\<lambda>i s. i mod s = 0) idx strides
        then elem t (map2 (\<lambda>i s. i div s) idx strides) else 0)\<rparr>"

text \<open>
  Modelled from the spec: the padding primitive \<^verbatim>\<open>topi.nn.pad\<close> (not part of this
  module), zero padding: axis \<open>k\<close> grows by \<open>before ! k\<close> positions at its leading
  edge and by \<open>after ! k\<close> at its trailing edge; the entries of the tensor keep their
  place behind the leading padding and every added position holds zero.
\<close>

definition pad :: "'a::zero tensor \<Rightarrow> int list \<Rightarrow> int list \<Rightarrow> 'a tensor" where
  "pad t before after =
     \<lparr>shape = map2 (+) (map2 (+) (shape t) before) after,
      elem = (\<lambda>idx.
        if list_all (\<lambda>(i, b, n). b \<le> i \<and> i < b + n) (zip idx (zip before (shape t)))
        then elem t (map2 (-) idx before) else 0)\<rparr>"

text \<open>
  The value of an expression, given the values of the input handles (\<open>env\<close>) and of
  the calls of the uninterpreted primitives (\<open>ext\<close>).
\<close>

fun denote :: "(handle \<Rightarrow> 'a::zero tensor) \<Rightarrow> (texpr \<Rightarrow> 'a tensor) \<Rightarrow> texpr \<Rightarrow> 'a tensor" where
  "denote env ext (Input h) = env h"
| "denote env ext (Dilate e strides) = dilate (denote env ext e) strides"
| "denote env ext (Pad e before after) = pad (denote env ext e) before after"
| "denote env ext e = ext e"

section \<open>Properties\<close>

subsection \<open>Evaluating the sequencing\<close>

lemmas reg_defs =
  register_compute_def register_schedule_def register_alter_op_layout_def
  register_pattern_def

lemmas leaf_defs = from_result_def raise_err_def return_ok_def prim_def input_at_def

lemmas attr_defs = get_bool_def get_int_def get_int_tuple_def get_str_def

lemma bnd_pair:
  "bnd (r, tr) f =
     (case r of Inl e \<Rightarrow> (Inl e, tr) | Inr x \<Rightarrow> (fst (f x), tr @ snd (f x)))"
  by (simp add: bnd_def split: prod.splits sum.splits)

lemma fst_bnd_Inl_iff:
  "fst (bnd m f) = Inl e \<longleftrightarrow>
     fst m = Inl e \<or> (\<exists>x. fst m = Inr x \<and> fst (f x) = Inl e)"
  by (auto simp: bnd_def split: prod.splits sum.splits)

lemma fst_leaf:
  "fst (from_result r) = r"
  "fst (raise_err e) = Inl e"
  "fst (return_ok x) = Inr x"
  "fst (prim t) = Inr t"
  "fst (input_at inputs i) =
     (if i < length inputs then Inr (inputs ! i)
      else Inl (IndexError ''list index out of range''))"
  by (simp_all add: leaf_defs)

lemma prims_append: "prims (xs @ ys) = prims xs @ prims ys"
  by (induction xs rule: prims.induct) simp_all

lemma input_reads_append: "input_reads (xs @ ys) = input_reads xs @ input_reads ys"
  by (induction xs rule: input_reads.induct) simp_all

lemma snd_bnd:
  "snd (bnd m f) = (case fst m of Inl e \<Rightarrow> snd m | Inr x \<Rightarrow> snd m @ snd (f x))"
  by (auto simp: bnd_def split: prod.splits sum.splits)

lemma reads_bnd:
  assumes "set (input_reads (snd m)) \<subseteq> S"
    and "\<And>x. fst m = Inr x \<Longrightarrow> set (input_reads (snd (f x))) \<subseteq> S"
  shows "set (input_reads (snd (bnd m f))) \<subseteq> S"
  using assms by (auto simp: snd_bnd input_reads_append split: sum.splits)

lemma reads_leaf:
  "input_reads (snd (from_result r)) = []"
  "input_reads (snd (raise_err e)) = []"
  "input_reads (snd (return_ok x)) = []"
  "input_reads (snd (prim t)) = []"
  "input_reads (snd (input_at inputs i)) = [i]"
  by (simp_all add: leaf_defs)

lemma no_error_bnd:
  assumes "fst m \<noteq> Inl e"
    and "\<And>x. fst m = Inr x \<Longrightarrow> fst (f x) \<noteq> Inl e"
  shows "fst (bnd m f) \<noteq> Inl e"
  using assms by (auto simp: fst_bnd_Inl_iff)

lemma attr_no_IndexError:
  "get_bool a k \<noteq> Inl (IndexError m)"
  "get_int a k \<noteq> Inl (IndexError m)"
  "get_int_tuple a k \<noteq> Inl (IndexError m)"
  "get_str a k \<noteq> Inl (IndexError m)"
  "unpack2 t \<noteq> Inl (IndexError m)"
  by (simp_all add: attr_defs unpack2_def split: option.splits attr_value.splits list.splits)

lemma bnd_cong_ok:
  assumes "m = m'" and "\<And>x. fst m' = Inr x \<Longrightarrow> f x = g x"
  shows "bnd m f = bnd m' g"
  using assms by (auto simp: bnd_def split: prod.splits sum.splits)

lemma input_at_two:
  "input_at (d # w # rest) 0 = (Inr d, [InputAt 0])"
  "input_at (d # w # rest) 1 = (Inr w, [InputAt 1])"
  "input_at (d # w # rest) (Suc 0) = (Inr w, [InputAt (Suc 0)])"
  by (simp_all add: input_at_def)

lemmas eval_defs =
  compute_conv2d_def conv2d_bag_def attr_defs bnd_pair leaf_defs unpack2_def shape_at_def

lemma conv2d_bag_attrs:
  "conv2d_attrs (conv2d_bag padding strides dilation groups channels layout use_bias)
     padding strides dilation groups channels layout"
  by (simp add: conv2d_attrs_def conv2d_bag_def attr_defs)

subsection \<open>The registered fusion patterns\<close>

lemma patterns_load_nn:
  "patterns (load_nn r) =
     (patterns r)(''relu'' \<mapsto> ELEMWISE, ''leaky_relu'' \<mapsto> ELEMWISE,
       ''prelu'' \<mapsto> BROADCAST, ''flatten'' \<mapsto> INJECTIVE, ''pad'' \<mapsto> INJECTIVE,
       ''__layout_transform__'' \<mapsto> INJECTIVE, ''softmax'' \<mapsto> OPAQUE,
       ''log_softmax'' \<mapsto> OPAQUE, ''dense'' \<mapsto> OUT_ELEMWISE_FUSABLE,
       ''conv2d'' \<mapsto> OUT_ELEMWISE_FUSABLE,
       ''_contrib_conv2d_NCHWc'' \<mapsto> OUT_ELEMWISE_FUSABLE,
       ''conv2d_transpose'' \<mapsto> OUT_ELEMWISE_FUSABLE,
       ''max_pool2d'' \<mapsto> OUT_ELEMWISE_FUSABLE, ''avg_pool2d'' \<mapsto> OUT_ELEMWISE_FUSABLE,
       ''global_max_pool2d'' \<mapsto> OUT_ELEMWISE_FUSABLE,
       ''global_avg_pool2d'' \<mapsto> OUT_ELEMWISE_FUSABLE, ''upsampling'' \<mapsto> INJECTIVE,
       ''lrn'' \<mapsto> OPAQUE, ''l2_normalize'' \<mapsto> OUT_ELEMWISE_FUSABLE)"
  unfolding load_nn_def nn_registrations_def
  by (simp add: reg_defs)

text \<open>
  Claim C6: after the module is loaded, on top of any registry, the fusion pattern of each
  operator name the module registers is the one of the classification table: relu and
  leaky_relu are ELEMWISE; prelu is BROADCAST; flatten, pad, __layout_transform__ and
  upsampling are INJECTIVE; dense, conv2d, _contrib_conv2d_NCHWc, conv2d_transpose, the
  four pooling operators and l2_normalize are OUT_ELEMWISE_FUSABLE; softmax, log_softmax
  and lrn are OPAQUE. Loaded into the empty registry, the module gives a pattern to these
  nineteen names and to no other.
\<close>

theorem registered_patterns:
  "patterns (load_nn r) ''relu'' = Some ELEMWISE \<and>
   patterns (load_nn r) ''leaky_relu'' = Some ELEMWISE \<and>
   patterns (load_nn r) ''prelu'' = Some BROADCAST \<and>
   patterns (load_nn r) ''flatten'' = Some INJECTIVE \<and>
   patterns (load_nn r) ''pad'' = Some INJECTIVE \<and>
   patterns (load_nn r) ''__layout_transform__'' = Some INJECTIVE \<and>
   patterns (load_nn r) ''upsampling'' = Some INJECTIVE \<and>
   patterns (load_nn r) ''dense'' = Some OUT_ELEMWISE_FUSABLE \<and>
   patterns (load_nn r) ''conv2d'' = Some OUT_ELEMWISE_FUSABLE \<and>
   patterns (load_nn r) ''_contrib_conv2d_NCHWc'' = Some OUT_ELEMWISE_FUSABLE \<and>
   patterns (load_nn r) ''conv2d_transpose'' = Some OUT_ELEMWISE_FUSABLE \<and>
   patterns (load_nn r) ''max_pool2d'' = Some OUT_ELEMWISE_FUSABLE \<and>
   patterns (load_nn r) ''avg_pool2d'' = Some OUT_ELEMWISE_FUSABLE \<and>
   patterns (load_nn r) ''global_max_pool2d'' = Some OUT_ELEMWISE_FUSABLE \<and>
   patterns (load_nn r) ''global_avg_pool2d'' = Some OUT_ELEMWISE_FUSABLE \<and>
   patterns (load_nn r) ''l2_normalize'' = Some OUT_ELEMWISE_FUSABLE \<and>
   patterns (load_nn r) ''softmax'' = Some OPAQUE \<and>
   patterns (load_nn r) ''log_softmax'' = Some OPAQUE \<and>
   patterns (load_nn r) ''lrn'' = Some OPAQUE \<and>
   dom (patterns (load_nn empty_registry)) =
     {''relu'', ''leaky_relu'', ''prelu'', ''flatten'', ''pad'', ''__layout_transform__'',
      ''upsampling'', ''dense'', ''conv2d'', ''_contrib_conv2d_NCHWc'', ''conv2d_transpose'',
      ''max_pool2d'', ''avg_pool2d'', ''global_max_pool2d'', ''global_avg_pool2d'',
      ''l2_normalize'', ''softmax'', ''log_softmax'', ''lrn''}"
  unfolding patterns_load_nn
  by (simp add: empty_registry_def insert_commute)

subsection \<open>The schedule of conv2d\<close>

text \<open>
  Claim C5: when its two attribute reads succeed, the schedule lowering of conv2d selects
  the NCHW template if groups is 1 and the layout is "NCHW", the NHWC template if groups is
  1 and the layout is "NHWC", and the depthwise NCHW template in every other case; the
  template is called while the named target is the active one, and the stack of active
  targets is afterwards what it was before the call.
\<close>

theorem schedule_conv2d_selection:
  assumes "get_int a ''groups'' = Inr groups" and "get_str a ''layout'' = Inr layout"
  shows "schedule_conv2d a outs target st =
           (Inr (Schedule
                  (if groups = 1 \<and> layout = ''NCHW'' then generic_schedule_conv2d_nchw
                   else if groups = 1 \<and> layout = ''NHWC'' then generic_schedule_conv2d_nhwc
                   else generic_schedule_depthwise_conv2d_nchw)
                  (Some target) outs), st)"
  using assms
  by (simp add: schedule_conv2d_def with_target_def topi_generic_def current_target_def)

theorem schedule_conv2d_selection_witness:
  "get_int [''groups'' \<mapsto> IntAttr 4, ''layout'' \<mapsto> StrAttr ''NHWC''] ''groups'' = Inr 4 \<and>
   get_str [''groups'' \<mapsto> IntAttr 4, ''layout'' \<mapsto> StrAttr ''NHWC''] ''layout'' = Inr ''NHWC'' \<and>
   schedule_conv2d [''groups'' \<mapsto> IntAttr 4, ''layout'' \<mapsto> StrAttr ''NHWC'']
       [Input (Handle ''out'' [1, 4, 6, 6])] ''cuda'' [''llvm''] =
     (Inr (Schedule generic_schedule_depthwise_conv2d_nchw (Some ''cuda'')
            [Input (Handle ''out'' [1, 4, 6, 6])]), [''llvm''])"
proof -
  have g: "get_int [''groups'' \<mapsto> IntAttr 4, ''layout'' \<mapsto> StrAttr ''NHWC''] ''groups'' = Inr 4"
    by (simp add: get_int_def)
  have l: "get_str [''groups'' \<mapsto> IntAttr 4, ''layout'' \<mapsto> StrAttr ''NHWC''] ''layout''
             = Inr ''NHWC''"
    by (simp add: get_str_def)
  show ?thesis
    using g l schedule_conv2d_selection [OF g l, of "[Input (Handle ''out'' [1, 4, 6, 6])]" "''cuda''" "[''llvm'']"]
    by simp
qed

subsection \<open>The checks of conv2d\<close>

lemma conv2d_no_assertion:
  assumes "conv2d_attrs a padding strides dilation groups channels layout"
    and "layout = ''NCHW'' \<or> layout = ''NHWC''"
  shows "fst (compute_conv2d a inputs) \<noteq> Inl (AssertionError msg)"
  using assms unfolding conv2d_attrs_def compute_conv2d_def
  by (auto simp: bnd_pair leaf_defs fst_bnd_Inl_iff fst_leaf unpack2_def shape_at_def
        get_bool_def
      split: list.splits option.splits attr_value.splits if_splits)

lemma conv2d_bad_layout:
  assumes "conv2d_attrs a padding strides dilation groups channels layout"
    and "layout \<noteq> ''NCHW''" and "layout \<noteq> ''NHWC''"
  shows "compute_conv2d a inputs = (Inl (AssertionError []), [])"
  using assms unfolding conv2d_attrs_def compute_conv2d_def
  by (simp add: bnd_pair leaf_defs)

text \<open>
  Claim C8: a conv2d compute lowering whose attribute reads succeed and whose layout is a
  string other than "NCHW" and "NHWC" fails on the assertion of line 87 (the
  UnsupportedLayoutError of the specification), before it reads an input or invokes a
  primitive; with one of the two layouts it does not fail on an assertion, whatever else
  it does.
\<close>

theorem conv2d_layout_check:
  assumes "conv2d_attrs a padding strides dilation groups channels layout"
  shows "(layout \<noteq> ''NCHW'' \<and> layout \<noteq> ''NHWC'' \<longrightarrow>
            compute_conv2d a inputs = (Inl (AssertionError []), [])) \<and>
         (layout = ''NCHW'' \<or> layout = ''NHWC'' \<longrightarrow>
            (\<forall>msg. fst (compute_conv2d a inputs) \<noteq> Inl (AssertionError msg)))"
  using conv2d_bad_layout [OF assms] conv2d_no_assertion [OF assms]
  by blast

theorem conv2d_layout_check_witness:
  "conv2d_attrs (conv2d_bag [1, 1] [1, 1] [1, 1] 1 8 ''NCHW4c'' False)
     [1, 1] [1, 1] [1, 1] 1 8 ''NCHW4c'' \<and>
   compute_conv2d (conv2d_bag [1, 1] [1, 1] [1, 1] 1 8 ''NCHW4c'' False)
     [Handle ''data'' [1, 3, 8, 8], Handle ''weight'' [8, 3, 3, 3]] =
       (Inl (AssertionError []), []) \<and>
   conv2d_attrs (conv2d_bag [1, 1] [1, 1] [1, 1] 1 8 ''NHWC'' False)
     [1, 1] [1, 1] [1, 1] 1 8 ''NHWC'' \<and>
   fst (compute_conv2d (conv2d_bag [1, 1] [1, 1] [1, 1] 1 8 ''NHWC'' False)
     [Handle ''data'' [1, 8, 8, 3], Handle ''weight'' [3, 3, 3, 8]]) \<noteq>
       Inl (AssertionError [])"
proof -
  have bad: "conv2d_attrs (conv2d_bag [1, 1] [1, 1] [1, 1] 1 8 ''NCHW4c'' False)
               [1, 1] [1, 1] [1, 1] 1 8 ''NCHW4c''"
    by (rule conv2d_bag_attrs)
  have good: "conv2d_attrs (conv2d_bag [1, 1] [1, 1] [1, 1] 1 8 ''NHWC'' False)
                [1, 1] [1, 1] [1, 1] 1 8 ''NHWC''"
    by (rule conv2d_bag_attrs)
  show ?thesis
    using bad good
      conv2d_layout_check [OF bad,
        of "[Handle ''data'' [1, 3, 8, 8], Handle ''weight'' [8, 3, 3, 3]]"]
      conv2d_layout_check [OF good,
        of "[Handle ''data'' [1, 8, 8, 3], Handle ''weight'' [3, 3, 3, 8]]"]
    by simp
qed

text \<open>
  Claim C3, as amended: a conv2d compute lowering whose attribute reads succeed, whose
  layout is "NCHW" or "NHWC" and whose dilation has a component below 1 fails with the
  \<^verbatim>\<open>ValueError\<close> "dilation should be positive value" (the
  InvalidAttributeError of the specification), and its log is empty: it has read no input
  and invoked no primitive.
\<close>

theorem conv2d_bad_dilation:
  assumes "conv2d_attrs a padding strides [dh, dw] groups channels layout"
    and "layout = ''NCHW'' \<or> layout = ''NHWC''"
    and "dh < 1 \<or> dw < 1"
  shows "compute_conv2d a inputs = (Inl (ValueError ''dilation should be positive value''), [])"
  using assms unfolding conv2d_attrs_def compute_conv2d_def
  by (auto simp add: bnd_pair leaf_defs unpack2_def)

text \<open>
  The claim as stated, for every call with a dilation component below 1, fails where the
  layout is not one of the two supported ones: the assertion on the layout comes first, and
  the call with layout "NCWH" and dilation (0, 1) fails on it.
\<close>

theorem conv2d_bad_dilation_counterexample:
  "compute_conv2d (conv2d_bag [1, 1] [1, 1] [0, 1] 1 8 ''NCWH'' False)
     [Handle ''data'' [1, 3, 8, 8], Handle ''weight'' [8, 3, 3, 3]] =
     (Inl (AssertionError []), [])"
  by (simp add: eval_defs)

theorem conv2d_bad_dilation_witness:
  "conv2d_attrs (conv2d_bag [1, 1] [1, 1] [0, 1] 1 8 ''NCHW'' False)
     [1, 1] [1, 1] [0, 1] 1 8 ''NCHW'' \<and>
   compute_conv2d (conv2d_bag [1, 1] [1, 1] [0, 1] 1 8 ''NCHW'' False)
     [Handle ''data'' [1, 3, 8, 8], Handle ''weight'' [8, 3, 3, 3]] =
     (Inl (ValueError ''dilation should be positive value''), [])"
proof -
  have a: "conv2d_attrs (conv2d_bag [1, 1] [1, 1] [0, 1] 1 8 ''NCHW'' False)
             [1, 1] [1, 1] [0, 1] 1 8 ''NCHW''"
    by (rule conv2d_bag_attrs)
  show ?thesis
    using a conv2d_bad_dilation [OF a, of "[Handle ''data'' [1, 3, 8, 8], Handle ''weight'' [8, 3, 3, 3]]"]
    by simp
qed

subsection \<open>The dispatch of conv2d on the group number\<close>

text \<open>
  Claim C1, as amended: take a conv2d compute lowering that passes the layout assertion and
  the dilation check (its attribute reads succeed, the layout is "NCHW" or "NHWC", both
  dilation components are at least 1), with a data and a kernel input, the data tensor
  having at least two axes. If groups is 1, the one convolution call of the lowering is the
  standard convolution, on the kernel as it is (dilation (1, 1)) or dilated. Otherwise, if
  groups equals both the extent of axis 1 of the data tensor and the channels attribute, it
  is the depthwise convolution, on the same kernel. For any other groups the call fails with
  the \<^verbatim>\<open>ValueError\<close> "not support arbitrary group number for now" (the
  UnsupportedGroupingError of the specification) and no convolution is invoked.
\<close>

theorem conv2d_dispatch:
  assumes "conv2d_attrs a padding strides [dh, dw] groups channels layout"
    and "layout = ''NCHW'' \<or> layout = ''NHWC''"
    and "1 \<le> dh" and "1 \<le> dw"
    and "inputs = d # k # rest"
    and "hshape d = n # c # sh"
    and "kern = (if dh = 1 \<and> dw = 1 then Input k
                   else if layout = ''NCHW'' then Dilate (Input k) [1, 1, dh, dw]
                   else Dilate (Input k) [1, dh, dw, 1])"
  shows "(groups = 1 \<longrightarrow>
            conv_calls (prims (snd (compute_conv2d a inputs))) =
              [Conv2d (Input d) kern strides padding layout]) \<and>
         (groups \<noteq> 1 \<and> groups = c \<and> groups = channels \<longrightarrow>
            conv_calls (prims (snd (compute_conv2d a inputs))) =
              [DepthwiseConv2dNchw (Input d) kern strides padding]) \<and>
         (groups \<noteq> 1 \<and> \<not> (groups = c \<and> groups = channels) \<longrightarrow>
            fst (compute_conv2d a inputs) =
              Inl (ValueError ''not support arbitrary group number for now'') \<and>
            conv_calls (prims (snd (compute_conv2d a inputs))) = [])"
  using assms unfolding conv2d_attrs_def compute_conv2d_def
  by (auto simp add: bnd_pair leaf_defs unpack2_def shape_at_def conv_calls_def split: sum.splits)

text \<open>
  The claim as stated fails in two ways. The cases are tried in order, so a call with
  groups = channels = input channels = 1 takes the standard convolution and never the
  depthwise one; and a call with groups = 1 that fails the dilation check invokes no
  convolution at all.
\<close>

theorem conv2d_dispatch_counterexample:
  "compute_conv2d (conv2d_bag [0, 0] [1, 1] [1, 1] 1 1 ''NCHW'' False)
     [Handle ''data'' [1, 1, 8, 8], Handle ''weight'' [1, 1, 3, 3]] =
     (Inr (Conv2d (Input (Handle ''data'' [1, 1, 8, 8])) (Input (Handle ''weight'' [1, 1, 3, 3]))
            [1, 1] [0, 0] ''NCHW''),
      [InputAt 1, InputAt 0,
       Prim (Conv2d (Input (Handle ''data'' [1, 1, 8, 8]))
              (Input (Handle ''weight'' [1, 1, 3, 3])) [1, 1] [0, 0] ''NCHW'')]) \<and>
   compute_conv2d (conv2d_bag [0, 0] [1, 1] [0, 1] 1 8 ''NCHW'' False)
     [Handle ''data'' [1, 3, 8, 8], Handle ''weight'' [8, 3, 3, 3]] =
     (Inl (ValueError ''dilation should be positive value''), [])"
  by (simp add: eval_defs)

theorem conv2d_dispatch_witness:
  "conv_calls (prims (snd (compute_conv2d (conv2d_bag [1, 1] [1, 1] [2, 2] 1 4 ''NCHW'' False)
       [Handle ''data'' [1, 4, 8, 8], Handle ''weight'' [4, 4, 3, 3]]))) =
     [Conv2d (Input (Handle ''data'' [1, 4, 8, 8]))
        (Dilate (Input (Handle ''weight'' [4, 4, 3, 3])) [1, 1, 2, 2]) [1, 1] [1, 1] ''NCHW''] \<and>
   conv_calls (prims (snd (compute_conv2d (conv2d_bag [1, 1] [1, 1] [1, 1] 4 4 ''NCHW'' False)
       [Handle ''data'' [1, 4, 8, 8], Handle ''weight'' [4, 1, 3, 3]]))) =
     [DepthwiseConv2dNchw (Input (Handle ''data'' [1, 4, 8, 8]))
        (Input (Handle ''weight'' [4, 1, 3, 3])) [1, 1] [1, 1]] \<and>
   fst (compute_conv2d (conv2d_bag [1, 1] [1, 1] [1, 1] 2 4 ''NCHW'' False)
       [Handle ''data'' [1, 4, 8, 8], Handle ''weight'' [4, 2, 3, 3]]) =
     Inl (ValueError ''not support arbitrary group number for now'') \<and>
   fst (compute_conv2d (conv2d_bag [1, 1] [1, 1] [1, 1] 0 4 ''NCHW'' False)
       [Handle ''data'' [1, 4, 8, 8], Handle ''weight'' [4, 2, 3, 3]]) =
     Inl (ValueError ''not support arbitrary group number for now'')"
proof -
  have a1: "conv2d_attrs (conv2d_bag [1, 1] [1, 1] [2, 2] 1 4 ''NCHW'' False)
              [1, 1] [1, 1] [2, 2] 1 4 ''NCHW''"
    by (rule conv2d_bag_attrs)
  have a4: "conv2d_attrs (conv2d_bag [1, 1] [1, 1] [1, 1] 4 4 ''NCHW'' False)
              [1, 1] [1, 1] [1, 1] 4 4 ''NCHW''"
    by (rule conv2d_bag_attrs)
  have a2: "conv2d_attrs (conv2d_bag [1, 1] [1, 1] [1, 1] 2 4 ''NCHW'' False)
              [1, 1] [1, 1] [1, 1] 2 4 ''NCHW''"
    by (rule conv2d_bag_attrs)
  have a0: "conv2d_attrs (conv2d_bag [1, 1] [1, 1] [1, 1] 0 4 ''NCHW'' False)
              [1, 1] [1, 1] [1, 1] 0 4 ''NCHW''"
    by (rule conv2d_bag_attrs)
  show ?thesis
    using conv2d_dispatch [OF a1, of "[Handle ''data'' [1, 4, 8, 8], Handle ''weight'' [4, 4, 3, 3]]"
            "Handle ''data'' [1, 4, 8, 8]" "Handle ''weight'' [4, 4, 3, 3]" "[]" 1 4 "[8, 8]"]
          conv2d_dispatch [OF a4, of "[Handle ''data'' [1, 4, 8, 8], Handle ''weight'' [4, 1, 3, 3]]"
            "Handle ''data'' [1, 4, 8, 8]" "Handle ''weight'' [4, 1, 3, 3]" "[]" 1 4 "[8, 8]"]
          conv2d_dispatch [OF a2, of "[Handle ''data'' [1, 4, 8, 8], Handle ''weight'' [4, 2, 3, 3]]"
            "Handle ''data'' [1, 4, 8, 8]" "Handle ''weight'' [4, 2, 3, 3]" "[]" 1 4 "[8, 8]"]
          conv2d_dispatch [OF a0, of "[Handle ''data'' [1, 4, 8, 8], Handle ''weight'' [4, 2, 3, 3]]"
            "Handle ''data'' [1, 4, 8, 8]" "Handle ''weight'' [4, 2, 3, 3]" "[]" 1 4 "[8, 8]"]
    by simp
qed

text \<open>
  Claim C9, as amended: a conv2d compute lowering with layout "NHWC" that passes the
  dilation check, whose groups attribute is not 1 and equals both the extent of axis 1 of
  the data tensor and the channels attribute, invokes the depthwise NCHW convolution as its
  one convolution call. The call takes no layout argument, the branch does not test the
  layout, and the input channel count is the extent of axis 1 although the layout is
  "NHWC".
\<close>

theorem conv2d_depthwise_nhwc:
  assumes "conv2d_attrs a padding strides [dh, dw] groups channels ''NHWC''"
    and "1 \<le> dh" and "1 \<le> dw"
    and "groups \<noteq> 1"
    and "inputs = d # k # rest"
    and "hshape d = n # groups # sh"
    and "groups = channels"
  shows "conv_calls (prims (snd (compute_conv2d a inputs))) =
           [DepthwiseConv2dNchw (Input d)
              (if dh = 1 \<and> dw = 1 then Input k else Dilate (Input k) [1, dh, dw, 1])
              strides padding]"
  using assms unfolding conv2d_attrs_def compute_conv2d_def
  by (auto simp add: bnd_pair leaf_defs unpack2_def shape_at_def conv_calls_def split: sum.splits)

text \<open>
  The claim as stated, for every groups that equals both numbers, fails at groups = 1: the
  test \<^verbatim>\<open>groups == 1\<close> comes first, and the call takes the standard convolution
  with layout "NHWC". It also fails for a call that does not pass the dilation check, which
  raises before the dispatch.
\<close>

theorem conv2d_depthwise_nhwc_counterexample:
  "compute_conv2d (conv2d_bag [0, 0] [1, 1] [1, 1] 1 1 ''NHWC'' False)
     [Handle ''data'' [1, 1, 16, 3], Handle ''weight'' [1, 3, 3, 1]] =
     (Inr (Conv2d (Input (Handle ''data'' [1, 1, 16, 3])) (Input (Handle ''weight'' [1, 3, 3, 1]))
            [1, 1] [0, 0] ''NHWC''),
      [InputAt 1, InputAt 0,
       Prim (Conv2d (Input (Handle ''data'' [1, 1, 16, 3]))
              (Input (Handle ''weight'' [1, 3, 3, 1])) [1, 1] [0, 0] ''NHWC'')]) \<and>
   compute_conv2d (conv2d_bag [0, 0] [1, 1] [1, 0] 8 8 ''NHWC'' False)
     [Handle ''data'' [1, 8, 8, 3], Handle ''weight'' [3, 3, 8, 1]] =
     (Inl (ValueError ''dilation should be positive value''), [])"
  by (simp add: eval_defs)

theorem conv2d_depthwise_nhwc_witness:
  "conv_calls (prims (snd (compute_conv2d (conv2d_bag [1, 1] [1, 1] [1, 1] 8 8 ''NHWC'' False)
       [Handle ''data'' [1, 8, 8, 3], Handle ''weight'' [3, 3, 8, 1]]))) =
     [DepthwiseConv2dNchw (Input (Handle ''data'' [1, 8, 8, 3]))
        (Input (Handle ''weight'' [3, 3, 8, 1])) [1, 1] [1, 1]]"
proof -
  have a: "conv2d_attrs (conv2d_bag [1, 1] [1, 1] [1, 1] 8 8 ''NHWC'' False)
             [1, 1] [1, 1] [1, 1] 8 8 ''NHWC''"
    by (rule conv2d_bag_attrs)
  show ?thesis
    using conv2d_depthwise_nhwc [OF a, of "[Handle ''data'' [1, 8, 8, 3], Handle ''weight'' [3, 3, 8, 1]]"
            "Handle ''data'' [1, 8, 8, 3]" "Handle ''weight'' [3, 3, 8, 1]" "[]" 1 "[8, 3]"]
    by simp
qed

subsection \<open>The kernel of conv2d\<close>

text \<open>
  Claim C7: in a conv2d compute lowering whose dilation attribute is exactly (1, 1), the
  kernel argument of the convolution call (standard or depthwise), if the lowering gets to
  one, is the second input itself, \<^verbatim>\<open>inputs[1]\<close>, and the dilation primitive is
  not invoked.
\<close>

theorem conv2d_raw_kernel:
  assumes "get_int_tuple a ''dilation'' = Inr [1, 1]"
  shows "(conv_kernels (prims (snd (compute_conv2d a inputs))) = [] \<or>
          1 < length inputs \<and>
          conv_kernels (prims (snd (compute_conv2d a inputs))) = [Input (inputs ! 1)]) \<and>
         dilations (prims (snd (compute_conv2d a inputs))) = []"
  using assms unfolding compute_conv2d_def
  by (auto simp add: bnd_pair leaf_defs unpack2_def shape_at_def split: sum.splits)

theorem conv2d_raw_kernel_witness:
  "get_int_tuple (conv2d_bag [1, 1] [1, 1] [1, 1] 1 8 ''NCHW'' True) ''dilation'' = Inr [1, 1] \<and>
   conv_kernels (prims (snd (compute_conv2d (conv2d_bag [1, 1] [1, 1] [1, 1] 1 8 ''NCHW'' True)
     [Handle ''data'' [1, 3, 8, 8], Handle ''weight'' [8, 3, 3, 3], Handle ''bias'' [8]]))) =
     [Input (Handle ''weight'' [8, 3, 3, 3])] \<and>
   dilations (prims (snd (compute_conv2d (conv2d_bag [1, 1] [1, 1] [1, 1] 1 8 ''NCHW'' True)
     [Handle ''data'' [1, 3, 8, 8], Handle ''weight'' [8, 3, 3, 3], Handle ''bias'' [8]]))) = []"
proof -
  have d: "get_int_tuple (conv2d_bag [1, 1] [1, 1] [1, 1] 1 8 ''NCHW'' True) ''dilation''
             = Inr [1, 1]"
    by (simp add: conv2d_bag_def attr_defs)
  have c: "conv_kernels (prims (snd (compute_conv2d
             (conv2d_bag [1, 1] [1, 1] [1, 1] 1 8 ''NCHW'' True)
             [Handle ''data'' [1, 3, 8, 8], Handle ''weight'' [8, 3, 3, 3],
              Handle ''bias'' [8]]))) \<noteq> []"
    by (simp add: eval_defs)
  show ?thesis
    using d c conv2d_raw_kernel [OF d,
        of "[Handle ''data'' [1, 3, 8, 8], Handle ''weight'' [8, 3, 3, 3], Handle ''bias'' [8]]"]
    by simp
qed

text \<open>The dilation primitive on a tensor of four axes, for the two stride vectors.\<close>

lemma dilate_nchw:
  "elem (dilate t [1, 1, dh, dw]) [i0, i1, i2, i3] =
     (if i2 mod dh = 0 \<and> i3 mod dw = 0 then elem t [i0, i1, i2 div dh, i3 div dw] else 0)"
  by (simp add: dilate_def)

lemma dilate_nhwc:
  "elem (dilate t [1, dh, dw, 1]) [i0, i1, i2, i3] =
     (if i1 mod dh = 0 \<and> i2 mod dw = 0 then elem t [i0, i1 div dh, i2 div dw, i3] else 0)"
  by (simp add: dilate_def)

lemma dilate_shape_nchw:
  "shape t = [s0, s1, s2, s3] \<Longrightarrow>
   shape (dilate t [1, 1, dh, dw]) = [s0, s1, (s2 - 1) * dh + 1, (s3 - 1) * dw + 1]"
  by (simp add: dilate_def)

lemma dilate_shape_nhwc:
  "shape t = [s0, s1, s2, s3] \<Longrightarrow>
   shape (dilate t [1, dh, dw, 1]) = [s0, (s1 - 1) * dh + 1, (s2 - 1) * dw + 1, s3]"
  by (simp add: dilate_def)

lemma dilate_taps_nchw:
  assumes "1 \<le> dh" and "1 \<le> dw"
  shows "elem (dilate t [1, 1, dh, dw]) [i0, i1, h * dh, w * dw] = elem t [i0, i1, h, w]"
  using assms by (simp add: dilate_nchw)

lemma dilate_gap_nchw:
  assumes "0 < j" and "j < dh"
  shows "elem (dilate t [1, 1, dh, dw]) [i0, i1, h * dh + j, x] = 0"
  using assms by (simp add: dilate_nchw)

lemma dilate_gap_nchw_w:
  assumes "0 < j" and "j < dw"
  shows "elem (dilate t [1, 1, dh, dw]) [i0, i1, y, w * dw + j] = 0"
  using assms by (simp add: dilate_nchw)

lemma conv2d_dilated_log:
  assumes "conv2d_attrs a padding strides [dh, dw] groups channels layout"
    and "1 \<le> dh" and "1 \<le> dw" and "\<not> (dh = 1 \<and> dw = 1)"
    and "layout = ''NCHW'' \<or> layout = ''NHWC''"
    and "inputs = d # k # rest"
    and "ds = (if layout = ''NCHW'' then [1, 1, dh, dw] else [1, dh, dw, 1])"
  shows "dilations (prims (snd (compute_conv2d a inputs))) = [Dilate (Input k) ds]"
    and "set (conv_kernels (prims (snd (compute_conv2d a inputs)))) \<subseteq> {Dilate (Input k) ds}"
  using assms unfolding conv2d_attrs_def compute_conv2d_def
  by (auto simp add: bnd_pair leaf_defs unpack2_def shape_at_def split: sum.splits)

text \<open>
  Claim C2: in a conv2d compute lowering whose attribute reads succeed, with a dilation
  (dh, dw) of components at least 1 other than (1, 1), the kernel input is dilated once, with
  strides [1, 1, dh, dw] when the layout is "NCHW" and [1, dh, dw, 1] when it is "NHWC",
  and a convolution call of the lowering takes the dilated kernel. Dilation places the
  entries of the kernel dh apart along the first dilated axis and dw apart along the second
  and fills the positions in between with zeros: for "NCHW", entry (h, w) sits at
  (h * dh, w * dw), and the dh - 1 positions after it along axis 2 and the dw - 1 positions
  after it along axis 3 hold zero. For dilation (2, 1) that is one zero between neighbours
  along axis 2 and none along axis 3, as the instance after the theorem shows.
\<close>

theorem conv2d_dilated_kernel:
  assumes "conv2d_attrs a padding strides [dh, dw] groups channels layout"
    and "1 \<le> dh" and "1 \<le> dw" and "\<not> (dh = 1 \<and> dw = 1)"
    and "layout = ''NCHW'' \<or> layout = ''NHWC''"
    and "inputs = d # k # rest"
    and "ds = (if layout = ''NCHW'' then [1, 1, dh, dw] else [1, dh, dw, 1])"
  shows "dilations (prims (snd (compute_conv2d a inputs))) = [Dilate (Input k) ds] \<and>
         set (conv_kernels (prims (snd (compute_conv2d a inputs)))) \<subseteq> {Dilate (Input k) ds} \<and>
         elem (denote env ext (Dilate (Input k) ds)) [i0, i1, i2, i3] =
           (if layout = ''NCHW'' then
              (if i2 mod dh = 0 \<and> i3 mod dw = 0
               then elem (env k) [i0, i1, i2 div dh, i3 div dw] else 0)
            else
              (if i1 mod dh = 0 \<and> i2 mod dw = 0
               then elem (env k) [i0, i1 div dh, i2 div dw, i3] else 0)) \<and>
         (layout = ''NCHW'' \<longrightarrow>
            elem (denote env ext (Dilate (Input k) ds)) [i0, i1, h * dh, w * dw] =
              elem (env k) [i0, i1, h, w] \<and>
            (0 < j \<and> j < dh \<longrightarrow>
               elem (denote env ext (Dilate (Input k) ds)) [i0, i1, h * dh + j, i3] = 0) \<and>
            (0 < j \<and> j < dw \<longrightarrow>
               elem (denote env ext (Dilate (Input k) ds)) [i0, i1, i2, w * dw + j] = 0))"
proof -
  note log = conv2d_dilated_log [OF assms]
  have sem: "elem (denote env ext (Dilate (Input k) ds)) [i0, i1, i2, i3] =
           (if layout = ''NCHW'' then
              (if i2 mod dh = 0 \<and> i3 mod dw = 0
               then elem (env k) [i0, i1, i2 div dh, i3 div dw] else 0)
            else
              (if i1 mod dh = 0 \<and> i2 mod dw = 0
               then elem (env k) [i0, i1 div dh, i2 div dw, i3] else 0))"
    using assms(7) by (simp add: dilate_nchw dilate_nhwc)
  have taps: "layout = ''NCHW'' \<longrightarrow>
            elem (denote env ext (Dilate (Input k) ds)) [i0, i1, h * dh, w * dw] =
              elem (env k) [i0, i1, h, w] \<and>
            (0 < j \<and> j < dh \<longrightarrow>
               elem (denote env ext (Dilate (Input k) ds)) [i0, i1, h * dh + j, i3] = 0) \<and>
            (0 < j \<and> j < dw \<longrightarrow>
               elem (denote env ext (Dilate (Input k) ds)) [i0, i1, i2, w * dw + j] = 0)"
    using assms(2,3,7)
    by (simp add: dilate_taps_nchw dilate_gap_nchw dilate_gap_nchw_w)
  show ?thesis
    using log sem taps by blast
qed

theorem conv2d_dilated_kernel_witness:
  "dilations (prims (snd (compute_conv2d (conv2d_bag [0, 0] [1, 1] [2, 1] 1 8 ''NCHW'' False)
       [Handle ''data'' [1, 3, 8, 8], Handle ''weight'' [8, 3, 2, 2]]))) =
     [Dilate (Input (Handle ''weight'' [8, 3, 2, 2])) [1, 1, 2, 1]] \<and>
   elem (denote (\<lambda>h. \<lparr>shape = hshape h, elem = (\<lambda>idx. 10 * (idx ! 2) + idx ! 3 + 1)\<rparr>)
           (\<lambda>e. \<lparr>shape = [], elem = (\<lambda>idx. 0)\<rparr>)
           (Dilate (Input (Handle ''weight'' [8, 3, 2, 2])) [1, 1, 2, 1])) [0, 0, 0, 0] = (1 :: int) \<and>
   elem (denote (\<lambda>h. \<lparr>shape = hshape h, elem = (\<lambda>idx. 10 * (idx ! 2) + idx ! 3 + 1)\<rparr>)
           (\<lambda>e. \<lparr>shape = [], elem = (\<lambda>idx. 0)\<rparr>)
           (Dilate (Input (Handle ''weight'' [8, 3, 2, 2])) [1, 1, 2, 1])) [0, 0, 1, 0] = (0 :: int) \<and>
   elem (denote (\<lambda>h. \<lparr>shape = hshape h, elem = (\<lambda>idx. 10 * (idx ! 2) + idx ! 3 + 1)\<rparr>)
           (\<lambda>e. \<lparr>shape = [], elem = (\<lambda>idx. 0)\<rparr>)
           (Dilate (Input (Handle ''weight'' [8, 3, 2, 2])) [1, 1, 2, 1])) [0, 0, 2, 0] = (11 :: int) \<and>
   elem (denote (\<lambda>h. \<lparr>shape = hshape h, elem = (\<lambda>idx. 10 * (idx ! 2) + idx ! 3 + 1)\<rparr>)
           (\<lambda>e. \<lparr>shape = [], elem = (\<lambda>idx. 0)\<rparr>)
           (Dilate (Input (Handle ''weight'' [8, 3, 2, 2])) [1, 1, 2, 1])) [0, 0, 0, 1] = (2 :: int)"
proof -
  have a: "conv2d_attrs (conv2d_bag [0, 0] [1, 1] [2, 1] 1 8 ''NCHW'' False)
             [0, 0] [1, 1] [2, 1] 1 8 ''NCHW''"
    by (rule conv2d_bag_attrs)
  note th = conv2d_dilated_kernel [OF a, where
      inputs = "[Handle ''data'' [1, 3, 8, 8], Handle ''weight'' [8, 3, 2, 2]]"
      and d = "Handle ''data'' [1, 3, 8, 8]" and k = "Handle ''weight'' [8, 3, 2, 2]"
      and rest = "[]" and ds = "[1, 1, 2, 1]"
      and env = "\<lambda>h. \<lparr>shape = hshape h, elem = (\<lambda>idx. 10 * (idx ! 2) + idx ! 3 + 1)\<rparr>"
      and ext = "\<lambda>e. \<lparr>shape = [], elem = (\<lambda>idx. 0 :: int)\<rparr>"
      and ?i0.0 = 0 and ?i1.0 = 0]
  show ?thesis
    using th [where ?i2.0 = 0 and ?i3.0 = 0 and h = 0 and w = 0 and j = 1]
          th [where ?i2.0 = 1 and ?i3.0 = 0 and h = 0 and w = 0 and j = 1]
          th [where ?i2.0 = 2 and ?i3.0 = 0 and h = 0 and w = 0 and j = 1]
          th [where ?i2.0 = 0 and ?i3.0 = 1 and h = 0 and w = 0 and j = 1]
    by simp
qed

subsection \<open>The output padding of conv2d_transpose\<close>

lemma pad_trailing_shape:
  "shape t = [n, c, h, w] \<Longrightarrow>
   shape (pad t [0, 0, 0, 0] [0, 0, oph, opw]) = [n, c, h + oph, w + opw]"
  by (simp add: pad_def)

lemma pad_trailing_elem:
  "shape t = [n, c, h, w] \<Longrightarrow>
   elem (pad t [0, 0, 0, 0] [0, 0, oph, opw]) [i0, i1, i2, i3] =
     (if 0 \<le> i0 \<and> i0 < n \<and> 0 \<le> i1 \<and> i1 < c \<and> 0 \<le> i2 \<and> i2 < h \<and> 0 \<le> i3 \<and> i3 < w
      then elem t [i0, i1, i2, i3] else 0)"
  by (simp add: pad_def)

lemma conv2d_transpose_result:
  assumes "get_int_tuple a ''output_padding'' = Inr [oph, opw]"
    and "fst (compute_conv2d_transpose a inputs) = Inr out"
  shows "\<exists>strides padding.
           (prims (snd (compute_conv2d_transpose a inputs)) =
              [Conv2dTransposeNchw (Input (inputs ! 0)) (Input (inputs ! 1)) strides padding,
               out] \<and>
            out = Pad (Conv2dTransposeNchw (Input (inputs ! 0)) (Input (inputs ! 1)) strides padding)
                    [0, 0, 0, 0] [0, 0, oph, opw]) \<or>
           (prims (snd (compute_conv2d_transpose a inputs)) =
              [Conv2dTransposeNchw (Input (inputs ! 0)) (Input (inputs ! 1)) strides padding,
               ExpandDims (Input (inputs ! 2)) 1 2,
               BroadcastAdd
                 (Conv2dTransposeNchw (Input (inputs ! 0)) (Input (inputs ! 1)) strides padding)
                 (ExpandDims (Input (inputs ! 2)) 1 2),
               out] \<and>
            out = Pad (BroadcastAdd
                 (Conv2dTransposeNchw (Input (inputs ! 0)) (Input (inputs ! 1)) strides padding)
                 (ExpandDims (Input (inputs ! 2)) 1 2))
                    [0, 0, 0, 0] [0, 0, oph, opw])"
  using assms unfolding compute_conv2d_transpose_def
  by (auto simp add: bnd_pair leaf_defs tuple_at_def split: sum.splits if_splits)

text \<open>
  Claim C4: every result of a conv2d_transpose compute lowering with output_padding
  (op_h, op_w) is the padding primitive applied, as the last call, to the transposed
  convolution or, with a bias, to the broadcast sum of the transposed convolution and the
  expanded bias, with padding [0, 0, 0, 0] before and [0, 0, op_h, op_w] after. On a tensor
  of shape [n, c, h, w] that is the shape [n, c, h + op_h, w + op_w], the entries of the
  tensor at their own indices, and zero at every other index: nothing is added at a leading
  edge or on the batch and channel axes, op_h rows follow the last row and op_w columns
  the last column.
\<close>

theorem conv2d_transpose_output_padding:
  assumes "get_int_tuple a ''output_padding'' = Inr [oph, opw]"
    and "fst (compute_conv2d_transpose a inputs) = Inr out"
  shows "\<exists>pre.
           out = Pad pre [0, 0, 0, 0] [0, 0, oph, opw] \<and>
           (\<exists>conv. (\<exists>strides padding. conv =
               Conv2dTransposeNchw (Input (inputs ! 0)) (Input (inputs ! 1)) strides padding) \<and>
             (pre = conv \<and>
              prims (snd (compute_conv2d_transpose a inputs)) = [conv, out] \<or>
              pre = BroadcastAdd conv (ExpandDims (Input (inputs ! 2)) 1 2) \<and>
              prims (snd (compute_conv2d_transpose a inputs)) =
                [conv, ExpandDims (Input (inputs ! 2)) 1 2, pre, out])) \<and>
           (\<forall>n c h w. shape (denote env ext pre) = [n, c, h, w] \<longrightarrow>
              shape (denote env ext out) = [n, c, h + oph, w + opw] \<and>
              (\<forall>i0 i1 i2 i3.
                 elem (denote env ext out) [i0, i1, i2, i3] =
                   (if 0 \<le> i0 \<and> i0 < n \<and> 0 \<le> i1 \<and> i1 < c \<and>
                       0 \<le> i2 \<and> i2 < h \<and> 0 \<le> i3 \<and> i3 < w
                    then elem (denote env ext pre) [i0, i1, i2, i3] else 0)))"
proof -
  from conv2d_transpose_result [OF assms] obtain strides padding where
    r: "(prims (snd (compute_conv2d_transpose a inputs)) =
              [Conv2dTransposeNchw (Input (inputs ! 0)) (Input (inputs ! 1)) strides padding,
               out] \<and>
            out = Pad (Conv2dTransposeNchw (Input (inputs ! 0)) (Input (inputs ! 1)) strides padding)
                    [0, 0, 0, 0] [0, 0, oph, opw]) \<or>
           (prims (snd (compute_conv2d_transpose a inputs)) =
              [Conv2dTransposeNchw (Input (inputs ! 0)) (Input (inputs ! 1)) strides padding,
               ExpandDims (Input (inputs ! 2)) 1 2,
               BroadcastAdd
                 (Conv2dTransposeNchw (Input (inputs ! 0)) (Input (inputs ! 1)) strides padding)
                 (ExpandDims (Input (inputs ! 2)) 1 2),
               out] \<and>
            out = Pad (BroadcastAdd
                 (Conv2dTransposeNchw (Input (inputs ! 0)) (Input (inputs ! 1)) strides padding)
                 (ExpandDims (Input (inputs ! 2)) 1 2))
                    [0, 0, 0, 0] [0, 0, oph, opw])"
    by blast
  define conv where
    "conv = Conv2dTransposeNchw (Input (inputs ! 0)) (Input (inputs ! 1)) strides padding"
  define pre where
    "pre = (if prims (snd (compute_conv2d_transpose a inputs)) = [conv, out] then conv
            else BroadcastAdd conv (ExpandDims (Input (inputs ! 2)) 1 2))"
  have out: "out = Pad pre [0, 0, 0, 0] [0, 0, oph, opw]"
    using r unfolding pre_def conv_def by auto
  have calls: "pre = conv \<and> prims (snd (compute_conv2d_transpose a inputs)) = [conv, out] \<or>
      pre = BroadcastAdd conv (ExpandDims (Input (inputs ! 2)) 1 2) \<and>
      prims (snd (compute_conv2d_transpose a inputs)) =
        [conv, ExpandDims (Input (inputs ! 2)) 1 2, pre, out]"
    using r unfolding pre_def conv_def by auto
  have sem: "\<forall>n c h w. shape (denote env ext pre) = [n, c, h, w] \<longrightarrow>
              shape (denote env ext out) = [n, c, h + oph, w + opw] \<and>
              (\<forall>i0 i1 i2 i3.
                 elem (denote env ext out) [i0, i1, i2, i3] =
                   (if 0 \<le> i0 \<and> i0 < n \<and> 0 \<le> i1 \<and> i1 < c \<and>
                       0 \<le> i2 \<and> i2 < h \<and> 0 \<le> i3 \<and> i3 < w
                    then elem (denote env ext pre) [i0, i1, i2, i3] else 0))"
    unfolding out by (simp add: pad_trailing_shape pad_trailing_elem)
  show ?thesis
    using out calls sem conv_def by blast
qed

lemmas transpose_eval_defs =
  compute_conv2d_transpose_def conv2d_bag_def attr_defs bnd_pair leaf_defs tuple_at_def

theorem conv2d_transpose_output_padding_witness:
  "get_int_tuple ((conv2d_bag [1, 1] [2, 2] [1, 1] 1 8 ''NCHW'' True)
       (''output_padding'' \<mapsto> IntTupleAttr [1, 2])) ''output_padding'' = Inr [1, 2] \<and>
   fst (compute_conv2d_transpose ((conv2d_bag [1, 1] [2, 2] [1, 1] 1 8 ''NCHW'' True)
       (''output_padding'' \<mapsto> IntTupleAttr [1, 2]))
       [Handle ''data'' [1, 3, 2, 2], Handle ''weight'' [3, 8, 3, 3], Handle ''bias'' [8]]) =
     Inr (Pad (BroadcastAdd
                (Conv2dTransposeNchw (Input (Handle ''data'' [1, 3, 2, 2]))
                   (Input (Handle ''weight'' [3, 8, 3, 3])) [2, 2] [1, 1])
                (ExpandDims (Input (Handle ''bias'' [8])) 1 2))
            [0, 0, 0, 0] [0, 0, 1, 2]) \<and>
   shape (denote (\<lambda>h. \<lparr>shape = hshape h, elem = (\<lambda>idx. 1 :: int)\<rparr>)
            (\<lambda>e. \<lparr>shape = [1, 8, 3, 3], elem = (\<lambda>idx. 5 :: int)\<rparr>)
            (Pad (BroadcastAdd
                (Conv2dTransposeNchw (Input (Handle ''data'' [1, 3, 2, 2]))
                   (Input (Handle ''weight'' [3, 8, 3, 3])) [2, 2] [1, 1])
                (ExpandDims (Input (Handle ''bias'' [8])) 1 2))
            [0, 0, 0, 0] [0, 0, 1, 2])) = [1, 8, 4, 5] \<and>
   elem (denote (\<lambda>h. \<lparr>shape = hshape h, elem = (\<lambda>idx. 1 :: int)\<rparr>)
            (\<lambda>e. \<lparr>shape = [1, 8, 3, 3], elem = (\<lambda>idx. 5 :: int)\<rparr>)
            (Pad (BroadcastAdd
                (Conv2dTransposeNchw (Input (Handle ''data'' [1, 3, 2, 2]))
                   (Input (Handle ''weight'' [3, 8, 3, 3])) [2, 2] [1, 1])
                (ExpandDims (Input (Handle ''bias'' [8])) 1 2))
            [0, 0, 0, 0] [0, 0, 1, 2])) [0, 7, 2, 2] = (5 :: int) \<and>
   elem (denote (\<lambda>h. \<lparr>shape = hshape h, elem = (\<lambda>idx. 1 :: int)\<rparr>)
            (\<lambda>e. \<lparr>shape = [1, 8, 3, 3], elem = (\<lambda>idx. 5 :: int)\<rparr>)
            (Pad (BroadcastAdd
                (Conv2dTransposeNchw (Input (Handle ''data'' [1, 3, 2, 2]))
                   (Input (Handle ''weight'' [3, 8, 3, 3])) [2, 2] [1, 1])
                (ExpandDims (Input (Handle ''bias'' [8])) 1 2))
            [0, 0, 0, 0] [0, 0, 1, 2])) [0, 7, 3, 2] = (0 :: int) \<and>
   elem (denote (\<lambda>h. \<lparr>shape = hshape h, elem = (\<lambda>idx. 1 :: int)\<rparr>)
            (\<lambda>e. \<lparr>shape = [1, 8, 3, 3], elem = (\<lambda>idx. 5 :: int)\<rparr>)
            (Pad (BroadcastAdd
                (Conv2dTransposeNchw (Input (Handle ''data'' [1, 3, 2, 2]))
                   (Input (Handle ''weight'' [3, 8, 3, 3])) [2, 2] [1, 1])
                (ExpandDims (Input (Handle ''bias'' [8])) 1 2))
            [0, 0, 0, 0] [0, 0, 1, 2])) [0, 7, 2, 4] = (0 :: int)"
proof -
  let ?a = "(conv2d_bag [1, 1] [2, 2] [1, 1] 1 8 ''NCHW'' True)
       (''output_padding'' \<mapsto> IntTupleAttr [1, 2])"
  let ?inputs = "[Handle ''data'' [1, 3, 2, 2], Handle ''weight'' [3, 8, 3, 3], Handle ''bias'' [8]]"
  let ?pre = "BroadcastAdd
                (Conv2dTransposeNchw (Input (Handle ''data'' [1, 3, 2, 2]))
                   (Input (Handle ''weight'' [3, 8, 3, 3])) [2, 2] [1, 1])
                (ExpandDims (Input (Handle ''bias'' [8])) 1 2)"
  let ?env = "\<lambda>h. \<lparr>shape = hshape h, elem = (\<lambda>idx. 1 :: int)\<rparr>"
  let ?ext = "\<lambda>e :: texpr. \<lparr>shape = [1, 8, 3, 3], elem = (\<lambda>idx. 5 :: int)\<rparr>"
  have op: "get_int_tuple ?a ''output_padding'' = Inr [1, 2]"
    by (simp add: conv2d_bag_def attr_defs)
  have ret: "fst (compute_conv2d_transpose ?a ?inputs) = Inr (Pad ?pre [0, 0, 0, 0] [0, 0, 1, 2])"
    by (simp add: transpose_eval_defs)
  from conv2d_transpose_output_padding [OF op ret, of ?env ?ext]
  obtain pre where pre: "Pad ?pre [0, 0, 0, 0] [0, 0, 1, 2] = Pad pre [0, 0, 0, 0] [0, 0, 1, 2]"
    and sem: "\<forall>n c h w. shape (denote ?env ?ext pre) = [n, c, h, w] \<longrightarrow>
              shape (denote ?env ?ext (Pad ?pre [0, 0, 0, 0] [0, 0, 1, 2])) = [n, c, h + 1, w + 2] \<and>
              (\<forall>i0 i1 i2 i3.
                 elem (denote ?env ?ext (Pad ?pre [0, 0, 0, 0] [0, 0, 1, 2])) [i0, i1, i2, i3] =
                   (if 0 \<le> i0 \<and> i0 < n \<and> 0 \<le> i1 \<and> i1 < c \<and>
                       0 \<le> i2 \<and> i2 < h \<and> 0 \<le> i3 \<and> i3 < w
                    then elem (denote ?env ?ext pre) [i0, i1, i2, i3] else 0))"
    by blast
  have eq: "pre = ?pre" using pre by simp
  have sh: "shape (denote ?env ?ext pre) = [1, 8, 3, 3]"
    unfolding eq by simp
  from sem [rule_format, OF sh]
  have s1: "shape (denote ?env ?ext (Pad ?pre [0, 0, 0, 0] [0, 0, 1, 2])) = [1, 8, 3 + 1, 3 + 2]"
    and s2: "\<And>i0 i1 i2 i3.
                 elem (denote ?env ?ext (Pad ?pre [0, 0, 0, 0] [0, 0, 1, 2])) [i0, i1, i2, i3] =
                   (if 0 \<le> i0 \<and> i0 < 1 \<and> 0 \<le> i1 \<and> i1 < 8 \<and>
                       0 \<le> i2 \<and> i2 < 3 \<and> 0 \<le> i3 \<and> i3 < 3
                    then elem (denote ?env ?ext pre) [i0, i1, i2, i3] else 0)"
    by blast+
  have e1: "elem (denote ?env ?ext (Pad ?pre [0, 0, 0, 0] [0, 0, 1, 2])) [0, 7, 2, 2] = 5"
    unfolding s2 eq by simp
  have e2: "elem (denote ?env ?ext (Pad ?pre [0, 0, 0, 0] [0, 0, 1, 2])) [0, 7, 3, 2] = 0"
    unfolding s2 by simp
  have e3: "elem (denote ?env ?ext (Pad ?pre [0, 0, 0, 0] [0, 0, 1, 2])) [0, 7, 2, 4] = 0"
    unfolding s2 by simp
  show ?thesis
    using op ret s1 e1 e2 e3 by simp
qed

subsection \<open>Lowering without a bias\<close>

lemma dense_reads:
  assumes "get_bool a ''use_bias'' = Inr False"
  shows "set (input_reads (snd (compute_dense a inputs))) \<subseteq> {0, 1}"
  unfolding compute_dense_def
  by ((rule reads_bnd | simp add: assms reads_leaf fst_leaf split: prod.splits)+)

lemma conv2d_reads:
  assumes "get_bool a ''use_bias'' = Inr False"
  shows "set (input_reads (snd (compute_conv2d a inputs))) \<subseteq> {0, 1}"
  unfolding compute_conv2d_def
  by ((rule reads_bnd | simp add: assms reads_leaf fst_leaf split: prod.splits | intro conjI impI allI)+)


lemma conv2d_NCHWc_reads:
  assumes "get_bool a ''use_bias'' = Inr False"
  shows "set (input_reads (snd (compute_contrib_conv2d_NCHWc a inputs))) \<subseteq> {0, 1}"
  unfolding compute_contrib_conv2d_NCHWc_def
  by ((rule reads_bnd | simp add: assms reads_leaf fst_leaf split: prod.splits | intro conjI impI allI)+)

lemma conv2d_transpose_reads:
  assumes "get_bool a ''use_bias'' = Inr False"
  shows "set (input_reads (snd (compute_conv2d_transpose a inputs))) \<subseteq> {0, 1}"
  unfolding compute_conv2d_transpose_def
  by ((rule reads_bnd | simp add: assms reads_leaf fst_leaf split: prod.splits | intro conjI impI allI)+)

lemmas no_index_simps =
  fst_leaf attr_no_IndexError shape_at_def tuple_at_def

lemma dense_in_range:
  assumes "get_bool a ''use_bias'' = Inr False" and "2 \<le> length inputs"
  shows "fst (compute_dense a inputs) \<noteq> Inl (IndexError ''list index out of range'')"
proof -
  have len: "0 < length inputs" "Suc 0 < length inputs" "inputs \<noteq> []"
    using assms(2) by auto
  show ?thesis
    unfolding compute_dense_def
    by ((rule no_error_bnd
          | simp add: assms(1) len no_index_simps split: prod.splits
          | intro conjI impI allI)+)
qed

lemma conv2d_in_range:
  assumes "get_bool a ''use_bias'' = Inr False" and "2 \<le> length inputs"
  shows "fst (compute_conv2d a inputs) \<noteq> Inl (IndexError ''list index out of range'')"
proof -
  have len: "0 < length inputs" "Suc 0 < length inputs" "inputs \<noteq> []"
    using assms(2) by auto
  show ?thesis
    unfolding compute_conv2d_def
    by ((rule no_error_bnd
          | simp add: assms(1) len no_index_simps split: prod.splits
          | intro conjI impI allI)+)
qed

lemma conv2d_NCHWc_in_range:
  assumes "get_bool a ''use_bias'' = Inr False" and "2 \<le> length inputs"
  shows "fst (compute_contrib_conv2d_NCHWc a inputs) \<noteq> Inl (IndexError ''list index out of range'')"
proof -
  have len: "0 < length inputs" "Suc 0 < length inputs" "inputs \<noteq> []"
    using assms(2) by auto
  show ?thesis
    unfolding compute_contrib_conv2d_NCHWc_def
    by ((rule no_error_bnd
          | simp add: assms(1) len no_index_simps split: prod.splits
          | intro conjI impI allI)+)
qed

lemma conv2d_transpose_in_range:
  assumes "get_bool a ''use_bias'' = Inr False" and "2 \<le> length inputs"
  shows "fst (compute_conv2d_transpose a inputs) \<noteq> Inl (IndexError ''list index out of range'')"
proof -
  have len: "0 < length inputs" "Suc 0 < length inputs" "inputs \<noteq> []"
    using assms(2) by auto
  show ?thesis
    unfolding compute_conv2d_transpose_def
    by ((rule no_error_bnd
          | simp add: assms(1) len no_index_simps split: prod.splits
          | intro conjI impI allI)+)
qed


lemma dense_two_inputs:
  assumes "get_bool a ''use_bias'' = Inr False"
  shows "compute_dense a (d # w # rest) = compute_dense a [d, w]"
  unfolding compute_dense_def
  by ((rule bnd_cong_ok | simp add: assms fst_leaf input_at_two split: prod.splits
        | intro conjI impI allI)+)


lemma conv2d_two_inputs:
  assumes "get_bool a ''use_bias'' = Inr False"
  shows "compute_conv2d a (d # w # rest) = compute_conv2d a [d, w]"
  unfolding compute_conv2d_def
  by ((rule bnd_cong_ok | simp add: assms fst_leaf input_at_two split: prod.splits
        | intro conjI impI allI)+)

lemma conv2d_NCHWc_two_inputs:
  assumes "get_bool a ''use_bias'' = Inr False"
  shows "compute_contrib_conv2d_NCHWc a (d # w # rest) = compute_contrib_conv2d_NCHWc a [d, w]"
  unfolding compute_contrib_conv2d_NCHWc_def
  by ((rule bnd_cong_ok | simp add: assms fst_leaf input_at_two split: prod.splits
        | intro conjI impI allI)+)

lemma conv2d_transpose_two_inputs:
  assumes "get_bool a ''use_bias'' = Inr False"
  shows "compute_conv2d_transpose a (d # w # rest) = compute_conv2d_transpose a [d, w]"
  unfolding compute_conv2d_transpose_def
  by ((rule bnd_cong_ok | simp add: assms fst_leaf input_at_two split: prod.splits
        | intro conjI impI allI)+)

text \<open>
  Claim C10: when use_bias is false, the compute lowerings of dense, conv2d,
  _contrib_conv2d_NCHWc and conv2d_transpose read no entry of the input sequence but
  \<^verbatim>\<open>inputs[0]\<close> and \<^verbatim>\<open>inputs[1]\<close>; called with two inputs they do not fail
  on an index of the sequence, and a call with more inputs has the outcome and the log of
  the call with the first two.
\<close>

theorem no_bias_two_inputs:
  assumes "get_bool a ''use_bias'' = Inr False"
  shows "set (input_reads (snd (compute_dense a inputs))) \<subseteq> {0, 1} \<and>
         set (input_reads (snd (compute_conv2d a inputs))) \<subseteq> {0, 1} \<and>
         set (input_reads (snd (compute_contrib_conv2d_NCHWc a inputs))) \<subseteq> {0, 1} \<and>
         set (input_reads (snd (compute_conv2d_transpose a inputs))) \<subseteq> {0, 1} \<and>
         fst (compute_dense a [d, w]) \<noteq> Inl (IndexError ''list index out of range'') \<and>
         fst (compute_conv2d a [d, w]) \<noteq> Inl (IndexError ''list index out of range'') \<and>
         fst (compute_contrib_conv2d_NCHWc a [d, w]) \<noteq>
           Inl (IndexError ''list index out of range'') \<and>
         fst (compute_conv2d_transpose a [d, w]) \<noteq>
           Inl (IndexError ''list index out of range'') \<and>
         compute_dense a (d # w # rest) = compute_dense a [d, w] \<and>
         compute_conv2d a (d # w # rest) = compute_conv2d a [d, w] \<and>
         compute_contrib_conv2d_NCHWc a (d # w # rest) =
           compute_contrib_conv2d_NCHWc a [d, w] \<and>
         compute_conv2d_transpose a (d # w # rest) = compute_conv2d_transpose a [d, w]"
  using dense_reads [OF assms] conv2d_reads [OF assms] conv2d_NCHWc_reads [OF assms]
    conv2d_transpose_reads [OF assms]
    dense_in_range [OF assms, of "[d, w]"] conv2d_in_range [OF assms, of "[d, w]"]
    conv2d_NCHWc_in_range [OF assms, of "[d, w]"]
    conv2d_transpose_in_range [OF assms, of "[d, w]"]
    dense_two_inputs [OF assms] conv2d_two_inputs [OF assms]
    conv2d_NCHWc_two_inputs [OF assms] conv2d_transpose_two_inputs [OF assms]
  by simp

theorem no_bias_two_inputs_witness:
  "get_bool ((conv2d_bag [1, 1] [1, 1] [1, 1] 1 8 ''NCHW'' False)
       (''kernel_size'' \<mapsto> IntTupleAttr [3, 3], ''output_padding'' \<mapsto> IntTupleAttr [0, 0]))
     ''use_bias'' = Inr False \<and>
   set (input_reads (snd (compute_conv2d
     ((conv2d_bag [1, 1] [1, 1] [1, 1] 1 8 ''NCHW'' False)
       (''kernel_size'' \<mapsto> IntTupleAttr [3, 3], ''output_padding'' \<mapsto> IntTupleAttr [0, 0]))
     [Handle ''data'' [1, 3, 8, 8], Handle ''weight'' [8, 3, 3, 3]]))) \<subseteq> {0, 1} \<and>
   fst (compute_conv2d_transpose
     ((conv2d_bag [1, 1] [1, 1] [1, 1] 1 8 ''NCHW'' False)
       (''kernel_size'' \<mapsto> IntTupleAttr [3, 3], ''output_padding'' \<mapsto> IntTupleAttr [0, 0]))
     [Handle ''data'' [1, 3, 8, 8], Handle ''weight'' [8, 3, 3, 3]]) \<noteq>
       Inl (IndexError ''list index out of range'') \<and>
   compute_dense
     ((conv2d_bag [1, 1] [1, 1] [1, 1] 1 8 ''NCHW'' False)
       (''kernel_size'' \<mapsto> IntTupleAttr [3, 3], ''output_padding'' \<mapsto> IntTupleAttr [0, 0]))
     [Handle ''data'' [1, 3, 8, 8], Handle ''weight'' [8, 3, 3, 3], Handle ''bias'' [8]] =
   compute_dense
     ((conv2d_bag [1, 1] [1, 1] [1, 1] 1 8 ''NCHW'' False)
       (''kernel_size'' \<mapsto> IntTupleAttr [3, 3], ''output_padding'' \<mapsto> IntTupleAttr [0, 0]))
     [Handle ''data'' [1, 3, 8, 8], Handle ''weight'' [8, 3, 3, 3]] \<and>
   compute_contrib_conv2d_NCHWc
     ((conv2d_bag [1, 1] [1, 1] [1, 1] 1 8 ''NCHW'' False)
       (''kernel_size'' \<mapsto> IntTupleAttr [3, 3], ''output_padding'' \<mapsto> IntTupleAttr [0, 0]))
     [Handle ''data'' [1, 3, 8, 8], Handle ''weight'' [8, 3, 3, 3], Handle ''bias'' [8]] =
   compute_contrib_conv2d_NCHWc
     ((conv2d_bag [1, 1] [1, 1] [1, 1] 1 8 ''NCHW'' False)
       (''kernel_size'' \<mapsto> IntTupleAttr [3, 3], ''output_padding'' \<mapsto> IntTupleAttr [0, 0]))
     [Handle ''data'' [1, 3, 8, 8], Handle ''weight'' [8, 3, 3, 3]]"
proof -
  have b: "get_bool ((conv2d_bag [1, 1] [1, 1] [1, 1] 1 8 ''NCHW'' False)
       (''kernel_size'' \<mapsto> IntTupleAttr [3, 3], ''output_padding'' \<mapsto> IntTupleAttr [0, 0]))
     ''use_bias'' = Inr False"
    by (simp add: conv2d_bag_def attr_defs)
  show ?thesis
    using b no_bias_two_inputs [OF b,
        of "[Handle ''data'' [1, 3, 8, 8], Handle ''weight'' [8, 3, 3, 3]]"
           "Handle ''data'' [1, 3, 8, 8]" "Handle ''weight'' [8, 3, 3, 3]"
           "[Handle ''bias'' [8]]"]
    by simp
qed

end
